theory Spec2Isabelle
  imports Complex_Main "HOL-Library.Word"
begin

section \<open>Python values\<close>

text \<open>
  The adapter (\<^verbatim>\<open>src/main.py\<close>) turns a validated request object into a Python
  \<^verbatim>\<open>dict\<close>, posts it as JSON and reads one field of the JSON answer.  The values that
  occur are \<^verbatim>\<open>None\<close>, booleans, integers, floats, strings, lists and dicts.

  A Python \<^verbatim>\<open>float\<close> is an IEEE 754 double.  The program never computes with one, it
  only hands it on, so a float is kept as its 64-bit pattern.

  A dict is an association list in insertion order, which is the order Python keeps and
  the order in which the JSON body is written.
\<close>

type_synonym float64 = "64 word"

datatype pyval =
    PyNone
  | PyBool bool
  | PyInt int
  | PyFloat float64
  | PyStr string
  | PyList "pyval list"
  | PyDict "(string \<times> pyval) list"

type_synonym pydict = "(string \<times> pyval) list"

text \<open>\<^verbatim>\<open>d[k] = v\<close>: an existing key keeps its position, a new key goes last.\<close>

fun dict_setitem :: "pydict \<Rightarrow> string \<Rightarrow> pyval \<Rightarrow> pydict" where
  "dict_setitem [] k v = [(k, v)]"
| "dict_setitem ((k', v') # d) k v =
     (if k' = k then (k, v) # d else (k', v') # dict_setitem d k v)"

text \<open>\<^verbatim>\<open>k in d\<close> and \<^verbatim>\<open>d.get(k)\<close>.\<close>

definition dict_contains :: "pydict \<Rightarrow> string \<Rightarrow> bool" where
  "dict_contains d k = (k \<in> fst ` set d)"

definition dict_get :: "pydict \<Rightarrow> string \<Rightarrow> pyval option" where
  "dict_get d k = map_of d k"

text \<open>Whether \<^verbatim>\<open>None\<close> (JSON \<^verbatim>\<open>null\<close>) occurs anywhere inside a value.\<close>

fun has_none :: "pyval \<Rightarrow> bool" where
  "has_none PyNone = True"
| "has_none (PyList xs) = list_ex has_none xs"
| "has_none (PyDict d) = list_ex (\<lambda>kv. has_none (snd kv)) d"
| "has_none _ = False"

text \<open>Every dict key that occurs in a value, at any depth.\<close>

fun all_keys :: "pyval \<Rightarrow> string list" where
  "all_keys (PyList xs) = concat (map all_keys xs)"
| "all_keys (PyDict d) = concat (map (\<lambda>kv. fst kv # all_keys (snd kv)) d)"
| "all_keys _ = []"

section \<open>The request models\<close>

text \<open>
  A field of a pydantic model that is declared \<^verbatim>\<open>Optional[T] = default\<close> can reach the
  constructor in three ways: the caller leaves it out, passes \<^verbatim>\<open>None\<close>, or passes a
  value (which validation has already coerced to \<^verbatim>\<open>T\<close>).
\<close>

datatype 'a arg = Unset | Null | Given 'a

text \<open>
  The value the model instance then holds: the declared default when the field was left
  out, otherwise what was passed.  pydantic does not validate defaults, so the default
  \<^verbatim>\<open>1\<close> of \<^verbatim>\<open>quantity: Optional[float] = 1\<close> stays the integer \<^verbatim>\<open>1\<close>.
\<close>

definition field_value :: "'a option \<Rightarrow> 'a arg \<Rightarrow> 'a option" where
  "field_value dflt a = (case a of Unset \<Rightarrow> dflt | Null \<Rightarrow> None | Given v \<Rightarrow> Some v)"

datatype pynum = PInt int | PFloat float64

fun pynum_val :: "pynum \<Rightarrow> pyval" where
  "pynum_val (PInt i) = PyInt i"
| "pynum_val (PFloat x) = PyFloat x"

subsection \<open>\<^verbatim>\<open>class LineItem(BaseModel)\<close>\<close>

record LineItem_args =
  li_name_arg :: string
  li_quantity_arg :: "float64 arg"
  li_unit_arg :: "string arg"
  li_display_text_arg :: "string arg"

record LineItem =
  li_name :: string
  li_quantity :: "pynum option"
  li_unit :: "string option"
  li_display_text :: "string option"

definition LineItem_init :: "LineItem_args \<Rightarrow> LineItem" where
  "LineItem_init a =
     \<lparr> li_name = li_name_arg a,
       li_quantity = field_value (Some (PInt 1)) (map_arg PFloat (li_quantity_arg a)),
       li_unit = field_value (Some ''each'') (li_unit_arg a),
       li_display_text = field_value None (li_display_text_arg a) \<rparr>"

subsection \<open>\<^verbatim>\<open>class ShoppingListRequest(BaseModel)\<close>\<close>

record ShoppingListRequest_args =
  sl_title_arg :: string
  sl_line_items_arg :: "LineItem_args list"
  sl_image_url_arg :: "string arg"
  sl_instructions_arg :: "string list arg"
  sl_partner_linkback_url_arg :: "string arg"

record ShoppingListRequest =
  sl_title :: string
  sl_line_items :: "LineItem list"
  sl_image_url :: "string option"
  sl_instructions :: "string list option"
  sl_partner_linkback_url :: "string option"

definition ShoppingListRequest_init :: "ShoppingListRequest_args \<Rightarrow> ShoppingListRequest" where
  "ShoppingListRequest_init a =
     \<lparr> sl_title = sl_title_arg a,
       sl_line_items = map LineItem_init (sl_line_items_arg a),
       sl_image_url = field_value None (sl_image_url_arg a),
       sl_instructions = field_value None (sl_instructions_arg a),
       sl_partner_linkback_url = field_value None (sl_partner_linkback_url_arg a) \<rparr>"

subsection \<open>\<^verbatim>\<open>class Ingredient(BaseModel)\<close>\<close>

record Ingredient_args =
  ing_name_arg :: string
  ing_display_text_arg :: "string arg"
  ing_quantity_arg :: "float64 arg"
  ing_unit_arg :: "string arg"

record Ingredient =
  ing_name :: string
  ing_display_text :: "string option"
  ing_quantity :: "pynum option"
  ing_unit :: "string option"

definition Ingredient_init :: "Ingredient_args \<Rightarrow> Ingredient" where
  "Ingredient_init a =
     \<lparr> ing_name = ing_name_arg a,
       ing_display_text = field_value None (ing_display_text_arg a),
       ing_quantity = field_value None (map_arg PFloat (ing_quantity_arg a)),
       ing_unit = field_value None (ing_unit_arg a) \<rparr>"

subsection \<open>\<^verbatim>\<open>class RecipeRequest(BaseModel)\<close>\<close>

record RecipeRequest_args =
  rc_title_arg :: string
  rc_ingredients_arg :: "Ingredient_args list"
  rc_image_url_arg :: "string arg"
  rc_author_arg :: "string arg"
  rc_servings_arg :: "int arg"
  rc_cooking_time_arg :: "int arg"
  rc_instructions_arg :: "string list arg"
  rc_partner_linkback_url_arg :: "string arg"
  rc_enable_pantry_items_arg :: "bool arg"

record RecipeRequest =
  rc_title :: string
  rc_ingredients :: "Ingredient list"
  rc_image_url :: "string option"
  rc_author :: "string option"
  rc_servings :: "int option"
  rc_cooking_time :: "int option"
  rc_instructions :: "string list option"
  rc_partner_linkback_url :: "string option"
  rc_enable_pantry_items :: "bool option"

definition RecipeRequest_init :: "RecipeRequest_args \<Rightarrow> RecipeRequest" where
  "RecipeRequest_init a =
     \<lparr> rc_title = rc_title_arg a,
       rc_ingredients = map Ingredient_init (rc_ingredients_arg a),
       rc_image_url = field_value None (rc_image_url_arg a),
       rc_author = field_value None (rc_author_arg a),
       rc_servings = field_value None (rc_servings_arg a),
       rc_cooking_time = field_value None (rc_cooking_time_arg a),
       rc_instructions = field_value None (rc_instructions_arg a),
       rc_partner_linkback_url = field_value None (rc_partner_linkback_url_arg a),
       rc_enable_pantry_items = field_value (Some False) (rc_enable_pantry_items_arg a) \<rparr>"

section \<open>\<^verbatim>\<open>BaseModel.dict(exclude_none=...)\<close>\<close>

text \<open>
  \<^verbatim>\<open>dict()\<close> walks the fields in declaration order.  With \<^verbatim>\<open>exclude_none\<close> a field whose
  value is \<^verbatim>\<open>None\<close> is skipped, otherwise it is written as \<^verbatim>\<open>None\<close>.  The flag is handed
  down to nested models.
\<close>

definition dict_field :: "bool \<Rightarrow> string \<Rightarrow> ('a \<Rightarrow> pyval) \<Rightarrow> 'a option \<Rightarrow> pydict" where
  "dict_field exclude_none k enc v =
     (case v of
        None \<Rightarrow> if exclude_none then [] else [(k, PyNone)]
      | Some x \<Rightarrow> [(k, enc x)])"

definition str_list :: "string list \<Rightarrow> pyval" where
  "str_list xs = PyList (map PyStr xs)"

definition LineItem_dict :: "bool \<Rightarrow> LineItem \<Rightarrow> pydict" where
  "LineItem_dict exclude_none x =
     [(''name'', PyStr (li_name x))]
     @ dict_field exclude_none ''quantity'' pynum_val (li_quantity x)
     @ dict_field exclude_none ''unit'' PyStr (li_unit x)
     @ dict_field exclude_none ''display_text'' PyStr (li_display_text x)"

definition ShoppingListRequest_dict :: "bool \<Rightarrow> ShoppingListRequest \<Rightarrow> pydict" where
  "ShoppingListRequest_dict exclude_none r =
     [(''title'', PyStr (sl_title r)),
      (''line_items'', PyList (map (\<lambda>x. PyDict (LineItem_dict exclude_none x)) (sl_line_items r)))]
     @ dict_field exclude_none ''image_url'' PyStr (sl_image_url r)
     @ dict_field exclude_none ''instructions'' str_list (sl_instructions r)
     @ dict_field exclude_none ''partner_linkback_url'' PyStr (sl_partner_linkback_url r)"

definition Ingredient_dict :: "bool \<Rightarrow> Ingredient \<Rightarrow> pydict" where
  "Ingredient_dict exclude_none x =
     [(''name'', PyStr (ing_name x))]
     @ dict_field exclude_none ''display_text'' PyStr (ing_display_text x)
     @ dict_field exclude_none ''quantity'' pynum_val (ing_quantity x)
     @ dict_field exclude_none ''unit'' PyStr (ing_unit x)"

definition RecipeRequest_dict :: "bool \<Rightarrow> RecipeRequest \<Rightarrow> pydict" where
  "RecipeRequest_dict exclude_none r =
     [(''title'', PyStr (rc_title r)),
      (''ingredients'', PyList (map (\<lambda>x. PyDict (Ingredient_dict exclude_none x)) (rc_ingredients r)))]
     @ dict_field exclude_none ''image_url'' PyStr (rc_image_url r)
     @ dict_field exclude_none ''author'' PyStr (rc_author r)
     @ dict_field exclude_none ''servings'' PyInt (rc_servings r)
     @ dict_field exclude_none ''cooking_time'' PyInt (rc_cooking_time r)
     @ dict_field exclude_none ''instructions'' str_list (rc_instructions r)
     @ dict_field exclude_none ''partner_linkback_url'' PyStr (rc_partner_linkback_url r)
     @ dict_field exclude_none ''enable_pantry_items'' PyBool (rc_enable_pantry_items r)"

section \<open>The payloads of the two tools\<close>

text \<open>
  \<^verbatim>\<open>create_shopping_list\<close> builds
  \<^verbatim>\<open>data = {**request.dict(exclude_none=True), "link_type": "shopping_list"}\<close>;
  \<^verbatim>\<open>create_recipe\<close> passes \<^verbatim>\<open>request.dict(exclude_none=True)\<close> as it is.
\<close>

definition create_shopping_list_data :: "ShoppingListRequest \<Rightarrow> pydict" where
  "create_shopping_list_data request =
     dict_setitem (ShoppingListRequest_dict True request) ''link_type'' (PyStr ''shopping_list'')"

definition create_recipe_data :: "RecipeRequest \<Rightarrow> pydict" where
  "create_recipe_data request = RecipeRequest_dict True request"

section \<open>Process configuration\<close>





record config =
  API_KEY_DEV :: "string option"
  API_KEY :: "string option"
  IS_PROD :: bool


text \<open>An f-string field \<^verbatim>\<open>{x}\<close> of an optional string: \<^verbatim>\<open>None\<close> prints as \<^verbatim>\<open>None\<close>.\<close>

definition format_str :: "string option \<Rightarrow> string" where
  "format_str x = (case x of None \<Rightarrow> ''None'' | Some s \<Rightarrow> s)"

section \<open>The HTTP client and the upstream service\<close>

text \<open>
  What \<^verbatim>\<open>client.post(url, json=..., headers=..., timeout=...)\<close> is called with, and what
  the service can make of a request: a response, a timeout, or another transport failure.
  A response carries its status code, its raw body and what \<^verbatim>\<open>response.json()\<close> makes of
  the body (\<open>None\<close> when the body is not JSON).
\<close>

record http_request =
  url :: string
  json :: pydict
  headers :: "(string \<times> string) list"
  timeout :: real

record http_response =
  status_code :: int
  content :: string
  json_value :: "pyval option"

datatype http_outcome = Responded http_response | TimedOut | TransportFailed

datatype error =
    HTTPStatusError http_response
  | JSONDecodeError
  | KeyError string
  | TypeError
  | ValueError
  | UnicodeEncodeError
  | TimeoutException
  | TransportError

text \<open>
  Before anything leaves the process, httpx builds the request, and that can raise:
  \<^item> a header value is encoded as ASCII, so a character outside ASCII raises
    \<^verbatim>\<open>UnicodeEncodeError\<close> (strings are UTF-8 byte lists here, and a byte with the top
    bit set belongs to such a character);
  \<^item> the body is written by \<^verbatim>\<open>json.dumps(..., allow_nan=False)\<close>, so a float that is an
    infinity or a NaN (all eleven exponent bits set) raises \<^verbatim>\<open>ValueError\<close>.
  The headers are encoded first.  The models accept any float, so a caller can pass an
  infinity as a \<^verbatim>\<open>quantity\<close>.
\<close>

definition is_ascii :: "string \<Rightarrow> bool" where
  "is_ascii s = list_all (\<lambda>c. \<not> digit7 c) s"

definition float_is_finite :: "float64 \<Rightarrow> bool" where
  "float_is_finite x = (take_bit 11 (drop_bit 52 x) \<noteq> (2047 :: 64 word))"

fun json_finite :: "pyval \<Rightarrow> bool" where
  "json_finite (PyFloat x) = float_is_finite x"
| "json_finite (PyList xs) = list_all json_finite xs"
| "json_finite (PyDict d) = list_all (\<lambda>kv. json_finite (snd kv)) d"
| "json_finite _ = True"

definition build_request :: "http_request \<Rightarrow> error + unit" where
  "build_request req =
     (if \<not> list_all (\<lambda>kv. is_ascii (fst kv) \<and> is_ascii (snd kv)) (headers req)
        then Inl UnicodeEncodeError
      else if \<not> json_finite (PyDict (json req)) then Inl ValueError
      else Inr ())"

text \<open>
  The service is outside the program: its answer to a request may depend on the request
  and on everything posted before.  The state the program acts on is the list of the
  requests handed to \<^verbatim>\<open>client.post\<close> so far, called \<open>sent\<close>; \<open>client_post\<close> appends to it.
  A request that cannot be built raises and never reaches the transport: the requests
  that did go out are the ones \<open>transmitted\<close> keeps.  Whether a request that went out
  arrived is the transport's matter (\<open>TimedOut\<close>, \<open>TransportFailed\<close>).
\<close>

type_synonym upstream = "http_request list \<Rightarrow> http_request \<Rightarrow> http_outcome"

definition client_post ::
  "upstream \<Rightarrow> http_request \<Rightarrow> http_request list
     \<Rightarrow> (error + http_response) \<times> http_request list" where
  "client_post up req sent =
     (case build_request req of
        Inl e \<Rightarrow> Inl e
      | Inr _ \<Rightarrow>
          (case up sent req of
             Responded response \<Rightarrow> Inr response
           | TimedOut \<Rightarrow> Inl TimeoutException
           | TransportFailed \<Rightarrow> Inl TransportError),
      sent @ [req])"

definition transmitted :: "http_request list \<Rightarrow> http_request list" where
  "transmitted sent = filter (\<lambda>req. \<not> isl (build_request req)) sent"

text \<open>\<^verbatim>\<open>response.raise_for_status()\<close> of httpx: passes on 2xx, raises otherwise.\<close>

definition raise_for_status :: "http_response \<Rightarrow> error + unit" where
  "raise_for_status response =
     (if 200 \<le> status_code response \<and> status_code response \<le> 299 then Inr ()
      else Inl (HTTPStatusError response))"

definition response_json :: "http_response \<Rightarrow> error + pyval" where
  "response_json response =
     (case json_value response of None \<Rightarrow> Inl JSONDecodeError | Some v \<Rightarrow> Inr v)"

text \<open>\<^verbatim>\<open>x["k"]\<close> with a string key: a dict looks the key up, anything else is a TypeError.\<close>

fun py_getitem :: "pyval \<Rightarrow> string \<Rightarrow> error + pyval" where
  "py_getitem (PyDict d) k = (case dict_get d k of None \<Rightarrow> Inl (KeyError k) | Some v \<Rightarrow> Inr v)"
| "py_getitem _ k = Inl TypeError"

section \<open>The gateway and the two tools\<close>

text \<open>
  \<^verbatim>\<open>_call_instacart_api(endpoint, data)\<close>, lines 100 to 117, in its two steps.  Lines 102
  to 115 are the one \<^verbatim>\<open>await client.post(...)\<close>, in the branch \<^verbatim>\<open>IS_PROD\<close> selects: it
  gives the response or raises.
\<close>

definition post_to_instacart ::
  "config \<Rightarrow> upstream \<Rightarrow> string \<Rightarrow> pydict \<Rightarrow> http_request list
     \<Rightarrow> (error + http_response) \<times> http_request list" where
  "post_to_instacart cfg up endpoint data sent =
     (if IS_PROD cfg then
        client_post up
          \<lparr> url = ''https://connect.instacart.com/idp/v1/'' @ endpoint,
            json = data,
            headers = [(''Authorization'', ''Bearer '' @ format_str (API_KEY cfg))],
            timeout = 30 \<rparr> sent
      else
        client_post up
          \<lparr> url = ''https://connect.dev.instacart.tools/idp/v1/'' @ endpoint,
            json = data,
            headers = [(''Authorization'', ''Bearer '' @ format_str (API_KEY_DEV cfg))],
            timeout = 30 \<rparr> sent)"

text \<open>
  Lines 116 and 117: \<^verbatim>\<open>response.raise_for_status()\<close> and
  \<^verbatim>\<open>return response.json()["products_link_url"]\<close>.
\<close>

definition unwrap_response :: "http_response \<Rightarrow> error + pyval" where
  "unwrap_response response =
     (case raise_for_status response of
        Inl e \<Rightarrow> Inl e
      | Inr _ \<Rightarrow>
          (case response_json response of
             Inl e \<Rightarrow> Inl e
           | Inr body \<Rightarrow> py_getitem body ''products_link_url''))"

text \<open>
  The whole function: an exception of \<^verbatim>\<open>client.post\<close> passes through.  The result is the
  returned value or the exception raised, together with the requests handed to
  \<^verbatim>\<open>client.post\<close>.
\<close>

definition call_instacart_api ::
  "config \<Rightarrow> upstream \<Rightarrow> string \<Rightarrow> pydict \<Rightarrow> http_request list
     \<Rightarrow> (error + pyval) \<times> http_request list" where
  "call_instacart_api cfg up endpoint data sent =
     (let (posted, sent') = post_to_instacart cfg up endpoint data sent
      in (case posted of
            Inl e \<Rightarrow> Inl e
          | Inr response \<Rightarrow> unwrap_response response,
          sent'))"

definition create_shopping_list ::
  "config \<Rightarrow> upstream \<Rightarrow> ShoppingListRequest \<Rightarrow> http_request list
     \<Rightarrow> (error + pyval) \<times> http_request list" where
  "create_shopping_list cfg up request sent =
     call_instacart_api cfg up ''products/products_link'' (create_shopping_list_data request) sent"

definition create_recipe ::
  "config \<Rightarrow> upstream \<Rightarrow> RecipeRequest \<Rightarrow> http_request list
     \<Rightarrow> (error + pyval) \<times> http_request list" where
  "create_recipe cfg up request sent =
     call_instacart_api cfg up ''products/recipe'' (create_recipe_data request) sent"

section \<open>Facts about dicts\<close>

lemma dict_get_Nil: "dict_get [] k = None"
  by (simp add: dict_get_def)

lemma dict_get_Cons: "dict_get ((k, v) # d) k' = (if k = k' then Some v else dict_get d k')"
  by (simp add: dict_get_def)

lemma dict_get_append:
  "dict_get (d @ d') k = (case dict_get d k of None \<Rightarrow> dict_get d' k | Some v \<Rightarrow> Some v)"
  by (simp add: dict_get_def map_add_def split: option.splits)

lemma dict_get_field:
  "dict_get (dict_field e k enc v) k' =
     (if k = k' then (case v of None \<Rightarrow> if e then None else Some PyNone | Some x \<Rightarrow> Some (enc x))
      else None)"
  by (simp add: dict_get_def dict_field_def split: option.splits)

lemma dict_get_setitem:
  "dict_get (dict_setitem d k v) k' = (if k = k' then Some v else dict_get d k')"
  by (induction d k v rule: dict_setitem.induct) (auto simp: dict_get_def)

lemma dict_contains_get: "dict_contains d k = (dict_get d k \<noteq> None)"
  by (simp add: dict_contains_def dict_get_def map_of_eq_None_iff)

lemmas dict_get_simps =
  dict_get_Nil dict_get_Cons dict_get_append dict_get_field dict_get_setitem

subsection \<open>No \<^verbatim>\<open>None\<close> under \<^verbatim>\<open>exclude_none=True\<close>\<close>

lemma has_none_Nil: "\<not> has_none (PyDict [])"
  by simp

lemma has_none_Cons:
  "has_none (PyDict ((k, v) # d)) = (has_none v \<or> has_none (PyDict d))"
  by simp

lemma has_none_append:
  "has_none (PyDict (d @ d')) = (has_none (PyDict d) \<or> has_none (PyDict d'))"
  by simp

lemma has_none_field:
  "has_none (PyDict (dict_field True k enc v)) = (case v of None \<Rightarrow> False | Some x \<Rightarrow> has_none (enc x))"
  by (simp add: dict_field_def split: option.splits)

lemma has_none_map:
  "has_none (PyList (map f xs)) = (\<exists>x\<in>set xs. has_none (f x))"
  by (simp add: list_ex_iff)

lemma has_none_setitem:
  "\<not> has_none (PyDict d) \<Longrightarrow> \<not> has_none v \<Longrightarrow> \<not> has_none (PyDict (dict_setitem d k v))"
  by (induction d k v rule: dict_setitem.induct) auto

lemma has_none_pynum: "\<not> has_none (pynum_val n)"
  by (cases n) simp_all

lemma has_none_str_list: "\<not> has_none (str_list xs)"
  by (simp add: str_list_def list_ex_iff)

lemmas has_none_dict =
  has_none_Nil has_none_Cons has_none_append has_none_field has_none_map
  has_none_pynum has_none_str_list

lemma has_none_LineItem_dict: "\<not> has_none (PyDict (LineItem_dict True x))"
  by (simp add: LineItem_dict_def has_none_dict del: has_none.simps(2,3) split: option.splits)

lemma has_none_Ingredient_dict: "\<not> has_none (PyDict (Ingredient_dict True x))"
  by (simp add: Ingredient_dict_def has_none_dict del: has_none.simps(2,3) split: option.splits)

lemma has_none_ShoppingListRequest_dict: "\<not> has_none (PyDict (ShoppingListRequest_dict True r))"
  by (simp add: ShoppingListRequest_dict_def has_none_dict has_none_LineItem_dict
      del: has_none.simps(2,3) split: option.splits)

lemma has_none_RecipeRequest_dict: "\<not> has_none (PyDict (RecipeRequest_dict True r))"
  by (simp add: RecipeRequest_dict_def has_none_dict has_none_Ingredient_dict
      del: has_none.simps(2,3) split: option.splits)

lemma has_none_create_shopping_list_data:
  "\<not> has_none (PyDict (create_shopping_list_data request))"
  unfolding create_shopping_list_data_def
  by (rule has_none_setitem) (rule has_none_ShoppingListRequest_dict, simp)

lemma has_none_create_recipe_data:
  "\<not> has_none (PyDict (create_recipe_data request))"
  unfolding create_recipe_data_def by (rule has_none_RecipeRequest_dict)

subsection \<open>The keys of a recipe payload\<close>

lemma all_keys_Nil: "all_keys (PyDict []) = []"
  by simp

lemma all_keys_Cons:
  "all_keys (PyDict ((k, v) # d)) = k # all_keys v @ all_keys (PyDict d)"
  by simp

lemma all_keys_append:
  "all_keys (PyDict (d @ d')) = all_keys (PyDict d) @ all_keys (PyDict d')"
  by simp

lemma all_keys_field:
  "(\<And>x. all_keys (enc x) = []) \<Longrightarrow>
   all_keys (PyDict (dict_field e k enc v)) = (if v = None \<and> e then [] else [k])"
  by (simp add: dict_field_def split: option.splits)

lemma all_keys_map:
  "set (all_keys (PyList (map f xs))) = (\<Union>x\<in>set xs. set (all_keys (f x)))"
  by simp

lemma all_keys_pynum: "all_keys (pynum_val n) = []"
  by (cases n) simp_all

lemma all_keys_str_list: "all_keys (str_list xs) = []"
  by (induction xs) (simp_all add: str_list_def)

lemmas all_keys_dict =
  all_keys_Nil all_keys_Cons all_keys_append all_keys_field all_keys_map
  all_keys_pynum all_keys_str_list

lemma all_keys_Ingredient_dict:
  "''link_type'' \<notin> set (all_keys (PyDict (Ingredient_dict e x)))"
  by (simp add: Ingredient_dict_def all_keys_dict del: all_keys.simps(1,2))

lemma all_keys_RecipeRequest_dict:
  "''link_type'' \<notin> set (all_keys (PyDict (RecipeRequest_dict e r)))"
  by (simp add: RecipeRequest_dict_def all_keys_dict all_keys_Ingredient_dict
      del: all_keys.simps(1,2))

section \<open>Facts about the gateway\<close>

text \<open>The one call of \<^verbatim>\<open>client.post\<close>, and what the gateway makes of its result.\<close>

lemma post_to_instacart_sent:
  "snd (post_to_instacart cfg up endpoint data sent) =
     sent @ [\<lparr> url = (if IS_PROD cfg then ''https://connect.instacart.com/idp/v1/''
                      else ''https://connect.dev.instacart.tools/idp/v1/'') @ endpoint,
               json = data,
               headers = [(''Authorization'',
                           ''Bearer '' @ format_str (if IS_PROD cfg then API_KEY cfg else API_KEY_DEV cfg))],
               timeout = 30 \<rparr>]"
  by (simp add: post_to_instacart_def client_post_def)

lemma call_instacart_api_sent:
  "snd (call_instacart_api cfg up endpoint data sent) =
     sent @ [\<lparr> url = (if IS_PROD cfg then ''https://connect.instacart.com/idp/v1/''
                      else ''https://connect.dev.instacart.tools/idp/v1/'') @ endpoint,
               json = data,
               headers = [(''Authorization'',
                           ''Bearer '' @ format_str (if IS_PROD cfg then API_KEY cfg else API_KEY_DEV cfg))],
               timeout = 30 \<rparr>]"
  using post_to_instacart_sent [of cfg up endpoint data sent]
  by (simp add: call_instacart_api_def split_beta)

lemma call_instacart_api_result:
  "fst (call_instacart_api cfg up endpoint data sent) =
     (case fst (post_to_instacart cfg up endpoint data sent) of
        Inl e \<Rightarrow> Inl e
      | Inr response \<Rightarrow> unwrap_response response)"
  by (simp add: call_instacart_api_def split_beta)

lemma post_to_instacart_result:
  "fst (post_to_instacart cfg up endpoint data sent) =
     (if \<not> is_ascii (format_str (if IS_PROD cfg then API_KEY cfg else API_KEY_DEV cfg))
        then Inl UnicodeEncodeError
      else if \<not> json_finite (PyDict data) then Inl ValueError
      else
        (case up sent
           \<lparr> url = (if IS_PROD cfg then ''https://connect.instacart.com/idp/v1/''
                    else ''https://connect.dev.instacart.tools/idp/v1/'') @ endpoint,
             json = data,
             headers = [(''Authorization'',
                         ''Bearer '' @ format_str (if IS_PROD cfg then API_KEY cfg else API_KEY_DEV cfg))],
             timeout = 30 \<rparr> of
           Responded response \<Rightarrow> Inr response
         | TimedOut \<Rightarrow> Inl TimeoutException
         | TransportFailed \<Rightarrow> Inl TransportError))"
  by (simp add: post_to_instacart_def client_post_def build_request_def is_ascii_def)

lemma transmitted_append:
  "transmitted (sent @ [req]) =
     transmitted sent @ (if isl (build_request req) then [] else [req])"
  by (simp add: transmitted_def)

lemma transmitted_Nil: "transmitted [] = []"
  by (simp add: transmitted_def)

lemma build_request_gateway:
  "isl (build_request
     \<lparr> url = u, json = data, headers = [(''Authorization'', ''Bearer '' @ cred)], timeout = t \<rparr>) =
   (\<not> (is_ascii cred \<and> json_finite (PyDict data)))"
  by (simp add: build_request_def is_ascii_def)

lemma call_instacart_api_transmitted:
  "transmitted (snd (call_instacart_api cfg up endpoint data sent)) =
     transmitted sent @
       (if is_ascii (format_str (if IS_PROD cfg then API_KEY cfg else API_KEY_DEV cfg))
           \<and> json_finite (PyDict data)
        then [\<lparr> url = (if IS_PROD cfg then ''https://connect.instacart.com/idp/v1/''
                      else ''https://connect.dev.instacart.tools/idp/v1/'') @ endpoint,
               json = data,
               headers = [(''Authorization'',
                           ''Bearer '' @ format_str (if IS_PROD cfg then API_KEY cfg else API_KEY_DEV cfg))],
               timeout = 30 \<rparr>]
        else [])"
  unfolding call_instacart_api_sent transmitted_append build_request_gateway
  by simp

lemma post_to_instacart_Inr:
  assumes "fst (post_to_instacart cfg up endpoint data sent) = Inr resp"
  shows "is_ascii (format_str (if IS_PROD cfg then API_KEY cfg else API_KEY_DEV cfg))
         \<and> json_finite (PyDict data)"
  using assms unfolding post_to_instacart_result
  by (simp split: if_splits)

lemma call_instacart_api_answered:
  assumes "fst (post_to_instacart cfg up endpoint data sent) = Inr resp"
  shows "fst (call_instacart_api cfg up endpoint data sent) = unwrap_response resp"
    and "length (snd (call_instacart_api cfg up endpoint data sent)) = Suc (length sent)"
    and "length (transmitted (snd (call_instacart_api cfg up endpoint data sent))) =
           Suc (length (transmitted sent))"
proof -
  show "fst (call_instacart_api cfg up endpoint data sent) = unwrap_response resp"
    using assms by (simp add: call_instacart_api_result)
  show "length (snd (call_instacart_api cfg up endpoint data sent)) = Suc (length sent)"
    by (simp add: call_instacart_api_sent)
  show "length (transmitted (snd (call_instacart_api cfg up endpoint data sent))) =
           Suc (length (transmitted sent))"
    using post_to_instacart_Inr [OF assms]
    by (simp add: call_instacart_api_transmitted)
qed

lemma create_shopping_list_json:
  "map json (snd (create_shopping_list cfg up request sent)) =
     map json sent @ [create_shopping_list_data request]"
  by (simp add: create_shopping_list_def call_instacart_api_sent)

lemma create_recipe_json:
  "map json (snd (create_recipe cfg up request sent)) =
     map json sent @ [create_recipe_data request]"
  by (simp add: create_recipe_def call_instacart_api_sent)

lemmas payload_defs =
  create_shopping_list_data_def create_recipe_data_def
  ShoppingListRequest_dict_def RecipeRequest_dict_def LineItem_dict_def Ingredient_dict_def
  ShoppingListRequest_init_def RecipeRequest_init_def LineItem_init_def Ingredient_init_def
  field_value_def

section \<open>The shopping-list payload\<close>

text \<open>
  C1, as the code has it.  For every request the caller can build, the one payload that
  \<^verbatim>\<open>create_shopping_list\<close> posts holds \<^verbatim>\<open>title\<close> and \<^verbatim>\<open>line_items\<close>, holds each of
  \<^verbatim>\<open>image_url\<close>, \<^verbatim>\<open>instructions\<close> and \<^verbatim>\<open>partner_linkback_url\<close> exactly when the caller passed
  a value other than \<^verbatim>\<open>None\<close> (and then with that value), and holds
  \<^verbatim>\<open>link_type = "shopping_list"\<close>.  Each line item holds its \<^verbatim>\<open>name\<close>; it holds
  \<^verbatim>\<open>quantity\<close>, \<^verbatim>\<open>unit\<close> and \<^verbatim>\<open>display_text\<close> with the value passed, lacks them when
  \<^verbatim>\<open>None\<close> was passed, and when they were left out holds the defaults \<^verbatim>\<open>quantity = 1\<close> and
  \<^verbatim>\<open>unit = "each"\<close> and lacks \<^verbatim>\<open>display_text\<close>.  \<^verbatim>\<open>None\<close> occurs nowhere in the payload.
  (\<open>dict_get d k = None\<close> says that the key \<open>k\<close> is not in \<open>d\<close>.)
\<close>

theorem create_shopping_list_payload:
  fixes a :: ShoppingListRequest_args and x :: LineItem_args
  defines "p \<equiv> create_shopping_list_data (ShoppingListRequest_init a)"
      and "item \<equiv> LineItem_dict True (LineItem_init x)"
  shows
    "map json (snd (create_shopping_list cfg up (ShoppingListRequest_init a) sent)) =
       map json sent @ [p]
     \<and> dict_get p ''title'' = Some (PyStr (sl_title_arg a))
     \<and> dict_get p ''line_items'' =
         Some (PyList (map (\<lambda>y. PyDict (LineItem_dict True (LineItem_init y))) (sl_line_items_arg a)))
     \<and> dict_get p ''image_url'' =
         (case sl_image_url_arg a of Unset \<Rightarrow> None | Null \<Rightarrow> None | Given v \<Rightarrow> Some (PyStr v))
     \<and> dict_get p ''instructions'' =
         (case sl_instructions_arg a of Unset \<Rightarrow> None | Null \<Rightarrow> None
          | Given v \<Rightarrow> Some (PyList (map PyStr v)))
     \<and> dict_get p ''partner_linkback_url'' =
         (case sl_partner_linkback_url_arg a of Unset \<Rightarrow> None | Null \<Rightarrow> None
          | Given v \<Rightarrow> Some (PyStr v))
     \<and> dict_get p ''link_type'' = Some (PyStr ''shopping_list'')
     \<and> dict_get item ''name'' = Some (PyStr (li_name_arg x))
     \<and> dict_get item ''quantity'' =
         (case li_quantity_arg x of Unset \<Rightarrow> Some (PyInt 1) | Null \<Rightarrow> None
          | Given q \<Rightarrow> Some (PyFloat q))
     \<and> dict_get item ''unit'' =
         (case li_unit_arg x of Unset \<Rightarrow> Some (PyStr ''each'') | Null \<Rightarrow> None
          | Given u \<Rightarrow> Some (PyStr u))
     \<and> dict_get item ''display_text'' =
         (case li_display_text_arg x of Unset \<Rightarrow> None | Null \<Rightarrow> None
          | Given t \<Rightarrow> Some (PyStr t))
     \<and> \<not> has_none (PyDict p)"
proof -
  have sent: "map json (snd (create_shopping_list cfg up (ShoppingListRequest_init a) sent)) =
       map json sent @ [p]"
    unfolding p_def by (rule create_shopping_list_json)
  have top: "dict_get p ''title'' = Some (PyStr (sl_title_arg a))"
    "dict_get p ''line_items'' =
   Some (PyList (map (\<lambda>y. PyDict (LineItem_dict True (LineItem_init y))) (sl_line_items_arg a)))"
    "dict_get p ''link_type'' = Some (PyStr ''shopping_list'')"
    unfolding p_def
    by (simp_all add: create_shopping_list_data_def ShoppingListRequest_dict_def
        ShoppingListRequest_init_def dict_get_simps)
  have opt: "dict_get p ''image_url'' =
         (case sl_image_url_arg a of Unset \<Rightarrow> None | Null \<Rightarrow> None | Given v \<Rightarrow> Some (PyStr v))"
    "dict_get p ''instructions'' =
         (case sl_instructions_arg a of Unset \<Rightarrow> None | Null \<Rightarrow> None
          | Given v \<Rightarrow> Some (PyList (map PyStr v)))"
    "dict_get p ''partner_linkback_url'' =
         (case sl_partner_linkback_url_arg a of Unset \<Rightarrow> None | Null \<Rightarrow> None
          | Given v \<Rightarrow> Some (PyStr v))"
    unfolding p_def
    by (simp_all add: create_shopping_list_data_def ShoppingListRequest_dict_def
        ShoppingListRequest_init_def field_value_def str_list_def dict_get_simps
        split: arg.splits)
  have it: "dict_get item ''name'' = Some (PyStr (li_name_arg x))"
    "dict_get item ''quantity'' =
         (case li_quantity_arg x of Unset \<Rightarrow> Some (PyInt 1) | Null \<Rightarrow> None
          | Given q \<Rightarrow> Some (PyFloat q))"
    "dict_get item ''unit'' =
         (case li_unit_arg x of Unset \<Rightarrow> Some (PyStr ''each'') | Null \<Rightarrow> None
          | Given u \<Rightarrow> Some (PyStr u))"
    "dict_get item ''display_text'' =
         (case li_display_text_arg x of Unset \<Rightarrow> None | Null \<Rightarrow> None
          | Given t \<Rightarrow> Some (PyStr t))"
    unfolding item_def
    by (simp_all add: LineItem_dict_def LineItem_init_def field_value_def dict_get_simps
        split: arg.splits)
  have nn: "\<not> has_none (PyDict p)"
    unfolding p_def by (rule has_none_create_shopping_list_data)
  from sent top opt it nn show ?thesis by blast
qed

text \<open>
  C1 as it is worded fails in both directions at one request: \<^verbatim>\<open>title\<close> set to
  \<^verbatim>\<open>"Weekend BBQ"\<close>, one line item \<^verbatim>\<open>{name: "Burger Buns"}\<close>, and \<^verbatim>\<open>image_url\<close> set to
  \<^verbatim>\<open>None\<close>.  It is false that the payload contains \<^verbatim>\<open>image_url\<close> because the caller set
  it, and false that the payload omits the line item's \<^verbatim>\<open>quantity\<close> because the caller
  left it unset; the payload is the one shown.  \<^verbatim>\<open>exclude_none=True\<close> looks at the value
  a field holds, not at who set it.
\<close>

theorem create_shopping_list_payload_counterexample:
  "\<not> (sl_image_url_arg
          \<lparr> sl_title_arg = ''Weekend BBQ'',
            sl_line_items_arg =
              [\<lparr> li_name_arg = ''Burger Buns'', li_quantity_arg = Unset,
                 li_unit_arg = Unset, li_display_text_arg = Unset \<rparr>],
            sl_image_url_arg = Null, sl_instructions_arg = Unset,
            sl_partner_linkback_url_arg = Unset \<rparr> \<noteq> Unset
        \<longrightarrow> dict_contains
             (create_shopping_list_data (ShoppingListRequest_init
                \<lparr> sl_title_arg = ''Weekend BBQ'',
                  sl_line_items_arg =
                    [\<lparr> li_name_arg = ''Burger Buns'', li_quantity_arg = Unset,
                       li_unit_arg = Unset, li_display_text_arg = Unset \<rparr>],
                  sl_image_url_arg = Null, sl_instructions_arg = Unset,
                  sl_partner_linkback_url_arg = Unset \<rparr>))
             ''image_url'')
   \<and> \<not> (li_quantity_arg
          \<lparr> li_name_arg = ''Burger Buns'', li_quantity_arg = Unset,
            li_unit_arg = Unset, li_display_text_arg = Unset \<rparr> = Unset
        \<longrightarrow> \<not> dict_contains
             (LineItem_dict True (LineItem_init
                \<lparr> li_name_arg = ''Burger Buns'', li_quantity_arg = Unset,
                  li_unit_arg = Unset, li_display_text_arg = Unset \<rparr>))
             ''quantity'')
   \<and> create_shopping_list_data (ShoppingListRequest_init
          \<lparr> sl_title_arg = ''Weekend BBQ'',
            sl_line_items_arg =
              [\<lparr> li_name_arg = ''Burger Buns'', li_quantity_arg = Unset,
                 li_unit_arg = Unset, li_display_text_arg = Unset \<rparr>],
            sl_image_url_arg = Null, sl_instructions_arg = Unset,
            sl_partner_linkback_url_arg = Unset \<rparr>) =
       [(''title'', PyStr ''Weekend BBQ''),
        (''line_items'',
         PyList [PyDict [(''name'', PyStr ''Burger Buns''), (''quantity'', PyInt 1),
                         (''unit'', PyStr ''each'')]]),
        (''link_type'', PyStr ''shopping_list'')]"
  by (simp add: payload_defs dict_field_def dict_contains_def)

text \<open>
  C6.  For \<^verbatim>\<open>{title: "Weekend BBQ", line_items: [{name: "Burger Buns"}]}\<close> the payload posted
  is exactly \<^verbatim>\<open>title\<close>, \<^verbatim>\<open>line_items\<close> with the one item
  \<^verbatim>\<open>{name: "Burger Buns", quantity: 1, unit: "each"}\<close>, and \<^verbatim>\<open>link_type: "shopping_list"\<close>:
  the defaults are applied, \<^verbatim>\<open>display_text\<close> is absent and there is no \<^verbatim>\<open>None\<close>.
\<close>

theorem weekend_bbq_payload:
  "map json (snd (create_shopping_list cfg up
      (ShoppingListRequest_init
        \<lparr> sl_title_arg = ''Weekend BBQ'',
          sl_line_items_arg =
            [\<lparr> li_name_arg = ''Burger Buns'', li_quantity_arg = Unset,
               li_unit_arg = Unset, li_display_text_arg = Unset \<rparr>],
          sl_image_url_arg = Unset, sl_instructions_arg = Unset,
          sl_partner_linkback_url_arg = Unset \<rparr>) sent)) =
   map json sent @
     [[(''title'', PyStr ''Weekend BBQ''),
       (''line_items'',
        PyList [PyDict [(''name'', PyStr ''Burger Buns''), (''quantity'', PyInt 1),
                        (''unit'', PyStr ''each'')]]),
       (''link_type'', PyStr ''shopping_list'')]]"
  by (simp add: create_shopping_list_json payload_defs dict_field_def)

section \<open>The recipe payload\<close>

text \<open>
  C7.  The payload that \<^verbatim>\<open>create_recipe\<close> posts is \<^verbatim>\<open>request.dict(exclude_none=True)\<close>, and
  for every request it has no key \<^verbatim>\<open>link_type\<close>, neither at the top nor in an ingredient.
\<close>

theorem create_recipe_no_link_type:
  "map json (snd (create_recipe cfg up request sent)) = map json sent @ [create_recipe_data request]
   \<and> \<not> dict_contains (create_recipe_data request) ''link_type''
   \<and> ''link_type'' \<notin> set (all_keys (PyDict (create_recipe_data request)))"
proof -
  have deep: "''link_type'' \<notin> set (all_keys (PyDict (create_recipe_data request)))"
    unfolding create_recipe_data_def by (rule all_keys_RecipeRequest_dict)
  then have "\<not> dict_contains (create_recipe_data request) ''link_type''"
    by (auto simp: dict_contains_def)
  with deep create_recipe_json show ?thesis by blast
qed

section \<open>Fields set to \<^verbatim>\<open>None\<close>, and defaults\<close>

text \<open>
  C9.  An optional field that the caller sets to \<^verbatim>\<open>None\<close> is not in the payload, for every
  optional field of the four models, including \<^verbatim>\<open>quantity\<close> and \<^verbatim>\<open>unit\<close> of a line item,
  whose defaults are not \<^verbatim>\<open>None\<close>: the key is absent, so neither \<^verbatim>\<open>None\<close> nor the default
  is sent.  The line items and ingredients of the payload are the dicts of the items the
  caller passed, in order, and no payload contains \<^verbatim>\<open>None\<close>.
\<close>

theorem null_fields_omitted:
  fixes a :: ShoppingListRequest_args and x :: LineItem_args
    and b :: RecipeRequest_args and y :: Ingredient_args
  defines "p \<equiv> create_shopping_list_data (ShoppingListRequest_init a)"
      and "item \<equiv> LineItem_dict True (LineItem_init x)"
      and "q \<equiv> create_recipe_data (RecipeRequest_init b)"
      and "ingr \<equiv> Ingredient_dict True (Ingredient_init y)"
  shows
    "(sl_image_url_arg a = Null \<longrightarrow> \<not> dict_contains p ''image_url'')
     \<and> (sl_instructions_arg a = Null \<longrightarrow> \<not> dict_contains p ''instructions'')
     \<and> (sl_partner_linkback_url_arg a = Null \<longrightarrow> \<not> dict_contains p ''partner_linkback_url'')
     \<and> (li_quantity_arg x = Null \<longrightarrow> \<not> dict_contains item ''quantity'')
     \<and> (li_unit_arg x = Null \<longrightarrow> \<not> dict_contains item ''unit'')
     \<and> (li_display_text_arg x = Null \<longrightarrow> \<not> dict_contains item ''display_text'')
     \<and> (rc_image_url_arg b = Null \<longrightarrow> \<not> dict_contains q ''image_url'')
     \<and> (rc_author_arg b = Null \<longrightarrow> \<not> dict_contains q ''author'')
     \<and> (rc_servings_arg b = Null \<longrightarrow> \<not> dict_contains q ''servings'')
     \<and> (rc_cooking_time_arg b = Null \<longrightarrow> \<not> dict_contains q ''cooking_time'')
     \<and> (rc_instructions_arg b = Null \<longrightarrow> \<not> dict_contains q ''instructions'')
     \<and> (rc_partner_linkback_url_arg b = Null \<longrightarrow> \<not> dict_contains q ''partner_linkback_url'')
     \<and> (rc_enable_pantry_items_arg b = Null \<longrightarrow> \<not> dict_contains q ''enable_pantry_items'')
     \<and> (ing_display_text_arg y = Null \<longrightarrow> \<not> dict_contains ingr ''display_text'')
     \<and> (ing_quantity_arg y = Null \<longrightarrow> \<not> dict_contains ingr ''quantity'')
     \<and> (ing_unit_arg y = Null \<longrightarrow> \<not> dict_contains ingr ''unit'')
     \<and> dict_get p ''line_items'' =
         Some (PyList (map (\<lambda>x. PyDict (LineItem_dict True (LineItem_init x))) (sl_line_items_arg a)))
     \<and> dict_get q ''ingredients'' =
         Some (PyList (map (\<lambda>y. PyDict (Ingredient_dict True (Ingredient_init y))) (rc_ingredients_arg b)))
     \<and> map json (snd (create_shopping_list cfg up (ShoppingListRequest_init a) sent)) =
         map json sent @ [p]
     \<and> map json (snd (create_recipe cfg up (RecipeRequest_init b) sent)) = map json sent @ [q]
     \<and> \<not> has_none (PyDict p) \<and> \<not> has_none (PyDict q)"
proof -
  have sl: "sl_image_url_arg a = Null \<longrightarrow> \<not> dict_contains p ''image_url''"
    "sl_instructions_arg a = Null \<longrightarrow> \<not> dict_contains p ''instructions''"
    "sl_partner_linkback_url_arg a = Null \<longrightarrow> \<not> dict_contains p ''partner_linkback_url''"
    "dict_get p ''line_items'' =
       Some (PyList (map (\<lambda>x. PyDict (LineItem_dict True (LineItem_init x))) (sl_line_items_arg a)))"
    unfolding p_def
    by (simp_all add: dict_contains_get create_shopping_list_data_def ShoppingListRequest_dict_def
        ShoppingListRequest_init_def field_value_def dict_get_simps)
  have li: "li_quantity_arg x = Null \<longrightarrow> \<not> dict_contains item ''quantity''"
    "li_unit_arg x = Null \<longrightarrow> \<not> dict_contains item ''unit''"
    "li_display_text_arg x = Null \<longrightarrow> \<not> dict_contains item ''display_text''"
    unfolding item_def
    by (simp_all add: dict_contains_get LineItem_dict_def LineItem_init_def field_value_def
        dict_get_simps)
  have rc: "rc_image_url_arg b = Null \<longrightarrow> \<not> dict_contains q ''image_url''"
    "rc_author_arg b = Null \<longrightarrow> \<not> dict_contains q ''author''"
    "rc_servings_arg b = Null \<longrightarrow> \<not> dict_contains q ''servings''"
    "rc_cooking_time_arg b = Null \<longrightarrow> \<not> dict_contains q ''cooking_time''"
    "rc_instructions_arg b = Null \<longrightarrow> \<not> dict_contains q ''instructions''"
    "rc_partner_linkback_url_arg b = Null \<longrightarrow> \<not> dict_contains q ''partner_linkback_url''"
    "rc_enable_pantry_items_arg b = Null \<longrightarrow> \<not> dict_contains q ''enable_pantry_items''"
    "dict_get q ''ingredients'' =
       Some (PyList (map (\<lambda>y. PyDict (Ingredient_dict True (Ingredient_init y))) (rc_ingredients_arg b)))"
    unfolding q_def
    by (simp_all add: dict_contains_get create_recipe_data_def RecipeRequest_dict_def
        RecipeRequest_init_def field_value_def dict_get_simps)
  have ing: "ing_display_text_arg y = Null \<longrightarrow> \<not> dict_contains ingr ''display_text''"
    "ing_quantity_arg y = Null \<longrightarrow> \<not> dict_contains ingr ''quantity''"
    "ing_unit_arg y = Null \<longrightarrow> \<not> dict_contains ingr ''unit''"
    unfolding ingr_def
    by (simp_all add: dict_contains_get Ingredient_dict_def Ingredient_init_def field_value_def
        dict_get_simps)
  have sent: "map json (snd (create_shopping_list cfg up (ShoppingListRequest_init a) sent)) =
         map json sent @ [p]"
    "map json (snd (create_recipe cfg up (RecipeRequest_init b) sent)) = map json sent @ [q]"
    unfolding p_def q_def by (rule create_shopping_list_json create_recipe_json)+
  have nn: "\<not> has_none (PyDict p)" "\<not> has_none (PyDict q)"
    unfolding p_def q_def
    by (rule has_none_create_shopping_list_data has_none_create_recipe_data)+
  from sl li rc ing sent nn show ?thesis by blast
qed

text \<open>Both requests with every optional field set to \<^verbatim>\<open>None\<close>.\<close>

theorem null_fields_omitted_witness:
  "list_all (\<lambda>k. \<not> dict_contains (create_shopping_list_data (ShoppingListRequest_init
       \<lparr> sl_title_arg = ''Weekend BBQ'',
         sl_line_items_arg =
           [\<lparr> li_name_arg = ''Burger Buns'', li_quantity_arg = Null,
              li_unit_arg = Null, li_display_text_arg = Null \<rparr>],
         sl_image_url_arg = Null, sl_instructions_arg = Null,
         sl_partner_linkback_url_arg = Null \<rparr>)) k)
     [''image_url'', ''instructions'', ''partner_linkback_url'']
   \<and> list_all (\<lambda>k. \<not> dict_contains (LineItem_dict True (LineItem_init
       \<lparr> li_name_arg = ''Burger Buns'', li_quantity_arg = Null,
         li_unit_arg = Null, li_display_text_arg = Null \<rparr>)) k)
     [''quantity'', ''unit'', ''display_text'']
   \<and> list_all (\<lambda>k. \<not> dict_contains (create_recipe_data (RecipeRequest_init
       \<lparr> rc_title_arg = ''Chili'',
         rc_ingredients_arg =
           [\<lparr> ing_name_arg = ''Beans'', ing_display_text_arg = Null,
              ing_quantity_arg = Null, ing_unit_arg = Null \<rparr>],
         rc_image_url_arg = Null, rc_author_arg = Null, rc_servings_arg = Null,
         rc_cooking_time_arg = Null, rc_instructions_arg = Null,
         rc_partner_linkback_url_arg = Null, rc_enable_pantry_items_arg = Null \<rparr>)) k)
     [''image_url'', ''author'', ''servings'', ''cooking_time'', ''instructions'',
      ''partner_linkback_url'', ''enable_pantry_items'']
   \<and> list_all (\<lambda>k. \<not> dict_contains (Ingredient_dict True (Ingredient_init
       \<lparr> ing_name_arg = ''Beans'', ing_display_text_arg = Null,
         ing_quantity_arg = Null, ing_unit_arg = Null \<rparr>)) k)
     [''display_text'', ''quantity'', ''unit'']"
  using null_fields_omitted [where
      a = "\<lparr> sl_title_arg = ''Weekend BBQ'',
         sl_line_items_arg =
           [\<lparr> li_name_arg = ''Burger Buns'', li_quantity_arg = Null,
              li_unit_arg = Null, li_display_text_arg = Null \<rparr>],
         sl_image_url_arg = Null, sl_instructions_arg = Null,
         sl_partner_linkback_url_arg = Null \<rparr>"
      and x = "\<lparr> li_name_arg = ''Burger Buns'', li_quantity_arg = Null,
         li_unit_arg = Null, li_display_text_arg = Null \<rparr>"
      and b = "\<lparr> rc_title_arg = ''Chili'',
         rc_ingredients_arg =
           [\<lparr> ing_name_arg = ''Beans'', ing_display_text_arg = Null,
              ing_quantity_arg = Null, ing_unit_arg = Null \<rparr>],
         rc_image_url_arg = Null, rc_author_arg = Null, rc_servings_arg = Null,
         rc_cooking_time_arg = Null, rc_instructions_arg = Null,
         rc_partner_linkback_url_arg = Null, rc_enable_pantry_items_arg = Null \<rparr>"
      and y = "\<lparr> ing_name_arg = ''Beans'', ing_display_text_arg = Null,
         ing_quantity_arg = Null, ing_unit_arg = Null \<rparr>"]
  by simp

text \<open>
  C10.  When the caller leaves \<^verbatim>\<open>enable_pantry_items\<close> unset, the recipe payload that is
  posted still contains \<^verbatim>\<open>enable_pantry_items\<close> with the value \<^verbatim>\<open>False\<close>: the default is
  not \<^verbatim>\<open>None\<close>, so \<^verbatim>\<open>exclude_none\<close> keeps it.
\<close>

theorem enable_pantry_items_default:
  assumes "rc_enable_pantry_items_arg a = Unset"
  shows "dict_get (create_recipe_data (RecipeRequest_init a)) ''enable_pantry_items'' =
           Some (PyBool False)
         \<and> map json (snd (create_recipe cfg up (RecipeRequest_init a) sent)) =
             map json sent @ [create_recipe_data (RecipeRequest_init a)]"
  using assms
  by (simp add: create_recipe_json create_recipe_data_def RecipeRequest_dict_def
      RecipeRequest_init_def field_value_def dict_get_simps)

text \<open>The recipe \<^verbatim>\<open>Chili\<close> with two cans of beans and the flag left unset.\<close>

theorem enable_pantry_items_default_witness:
  "rc_enable_pantry_items_arg
     \<lparr> rc_title_arg = ''Chili'',
       rc_ingredients_arg =
         [\<lparr> ing_name_arg = ''Beans'', ing_display_text_arg = Unset,
            ing_quantity_arg = Given 0x4000000000000000, ing_unit_arg = Given ''cans'' \<rparr>],
       rc_image_url_arg = Unset, rc_author_arg = Unset, rc_servings_arg = Unset,
       rc_cooking_time_arg = Unset, rc_instructions_arg = Unset,
       rc_partner_linkback_url_arg = Unset, rc_enable_pantry_items_arg = Unset \<rparr> = Unset
   \<and> dict_get (create_recipe_data (RecipeRequest_init
     \<lparr> rc_title_arg = ''Chili'',
       rc_ingredients_arg =
         [\<lparr> ing_name_arg = ''Beans'', ing_display_text_arg = Unset,
            ing_quantity_arg = Given 0x4000000000000000, ing_unit_arg = Given ''cans'' \<rparr>],
       rc_image_url_arg = Unset, rc_author_arg = Unset, rc_servings_arg = Unset,
       rc_cooking_time_arg = Unset, rc_instructions_arg = Unset,
       rc_partner_linkback_url_arg = Unset, rc_enable_pantry_items_arg = Unset \<rparr>))
     ''enable_pantry_items'' = Some (PyBool False)"
  using enable_pantry_items_default [of
     "\<lparr> rc_title_arg = ''Chili'',
       rc_ingredients_arg =
         [\<lparr> ing_name_arg = ''Beans'', ing_display_text_arg = Unset,
            ing_quantity_arg = Given 0x4000000000000000, ing_unit_arg = Given ''cans'' \<rparr>],
       rc_image_url_arg = Unset, rc_author_arg = Unset, rc_servings_arg = Unset,
       rc_cooking_time_arg = Unset, rc_instructions_arg = Unset,
       rc_partner_linkback_url_arg = Unset, rc_enable_pantry_items_arg = Unset \<rparr>"]
  by simp

lemmas gateway_eval =
  create_shopping_list_def create_recipe_def call_instacart_api_def post_to_instacart_def
  client_post_def build_request_def transmitted_def is_ascii_def format_str_def
  float_is_finite_def unwrap_response_def raise_for_status_def response_json_def
  dict_get_def dict_field_def

section \<open>The gateway\<close>







section \<open>What the gateway makes of a response\<close>

text \<open>
  C3.  When the POST of a tool is answered by a response with status 200 and a JSON
  object whose field \<^verbatim>\<open>products_link_url\<close> is the string \<open>u\<close>, the tool returns exactly
  \<open>u\<close>; so for \<^verbatim>\<open>create_shopping_list\<close> and for \<^verbatim>\<open>create_recipe\<close>.  (The hypothesis is that
  the tool's own \<^verbatim>\<open>client.post\<close> returns that response, whatever the service does with
  other requests.)
\<close>

theorem products_link_url_returned:
  assumes "status_code resp = 200"
      and "json_value resp = Some (PyDict d)"
      and "dict_get d ''products_link_url'' = Some (PyStr u)"
  shows
    "(fst (post_to_instacart cfg up ''products/products_link''
             (create_shopping_list_data request) sent) = Inr resp
        \<longrightarrow> fst (create_shopping_list cfg up request sent) = Inr (PyStr u))
     \<and> (fst (post_to_instacart cfg up ''products/recipe''
             (create_recipe_data request') sent) = Inr resp
        \<longrightarrow> fst (create_recipe cfg up request' sent) = Inr (PyStr u))"
proof -
  have "unwrap_response resp = Inr (PyStr u)"
    using assms by (simp add: unwrap_response_def raise_for_status_def response_json_def)
  then show ?thesis
    by (simp add: create_shopping_list_def create_recipe_def call_instacart_api_result)
qed

text \<open>
  A service that answers the requests carrying \<^verbatim>\<open>Bearer dev-key\<close> with
  \<^verbatim>\<open>{"products_link_url": "https://instacart.com/x"}\<close> and status 200.
\<close>

theorem products_link_url_returned_witness:
  "fst (create_shopping_list
        \<lparr> API_KEY_DEV = Some ''dev-key'', API_KEY = Some ''prod-key'', IS_PROD = False \<rparr>
        (\<lambda>sent req. if headers req = [(''Authorization'', ''Bearer dev-key'')]
            then Responded \<lparr> status_code = 200, content = ''ok'',
              json_value = Some (PyDict [(''products_link_url'', PyStr ''https://instacart.com/x'')]) \<rparr>
            else TransportFailed)
        (ShoppingListRequest_init
          \<lparr> sl_title_arg = ''Weekend BBQ'',
            sl_line_items_arg =
              [\<lparr> li_name_arg = ''Burger Buns'', li_quantity_arg = Given 0x4000000000000000,
                 li_unit_arg = Unset, li_display_text_arg = Unset \<rparr>],
            sl_image_url_arg = Unset, sl_instructions_arg = Unset,
            sl_partner_linkback_url_arg = Unset \<rparr>) []) = Inr (PyStr ''https://instacart.com/x'')
   \<and> fst (create_recipe
        \<lparr> API_KEY_DEV = Some ''dev-key'', API_KEY = Some ''prod-key'', IS_PROD = False \<rparr>
        (\<lambda>sent req. if headers req = [(''Authorization'', ''Bearer dev-key'')]
            then Responded \<lparr> status_code = 200, content = ''ok'',
              json_value = Some (PyDict [(''products_link_url'', PyStr ''https://instacart.com/x'')]) \<rparr>
            else TransportFailed)
        (RecipeRequest_init
          \<lparr> rc_title_arg = ''Chili'', rc_ingredients_arg = [],
            rc_image_url_arg = Unset, rc_author_arg = Unset, rc_servings_arg = Unset,
            rc_cooking_time_arg = Unset, rc_instructions_arg = Unset,
            rc_partner_linkback_url_arg = Unset, rc_enable_pantry_items_arg = Unset \<rparr>) []) = Inr (PyStr ''https://instacart.com/x'')"
proof -
  let ?cfg = "\<lparr> API_KEY_DEV = Some ''dev-key'', API_KEY = Some ''prod-key'', IS_PROD = False \<rparr>"
  let ?resp = "\<lparr> status_code = 200, content = ''ok'',
              json_value = Some (PyDict [(''products_link_url'', PyStr ''https://instacart.com/x'')]) \<rparr>"
  let ?up = "(\<lambda>sent req. if headers req = [(''Authorization'', ''Bearer dev-key'')]
            then Responded \<lparr> status_code = 200, content = ''ok'',
              json_value = Some (PyDict [(''products_link_url'', PyStr ''https://instacart.com/x'')]) \<rparr>
            else TransportFailed)"
  note w = products_link_url_returned [where resp = ?resp and cfg = ?cfg and up = ?up
      and d = "[(''products_link_url'', PyStr ''https://instacart.com/x'')]"
      and u = "''https://instacart.com/x''" and sent = "[]"
      and request = "(ShoppingListRequest_init
          \<lparr> sl_title_arg = ''Weekend BBQ'',
            sl_line_items_arg =
              [\<lparr> li_name_arg = ''Burger Buns'', li_quantity_arg = Given 0x4000000000000000,
                 li_unit_arg = Unset, li_display_text_arg = Unset \<rparr>],
            sl_image_url_arg = Unset, sl_instructions_arg = Unset,
            sl_partner_linkback_url_arg = Unset \<rparr>)"
      and request' = "(RecipeRequest_init
          \<lparr> rc_title_arg = ''Chili'', rc_ingredients_arg = [],
            rc_image_url_arg = Unset, rc_author_arg = Unset, rc_servings_arg = Unset,
            rc_cooking_time_arg = Unset, rc_instructions_arg = Unset,
            rc_partner_linkback_url_arg = Unset, rc_enable_pantry_items_arg = Unset \<rparr>)"]
  have sl: "fst (post_to_instacart ?cfg ?up ''products/products_link''
      (create_shopping_list_data (ShoppingListRequest_init
          \<lparr> sl_title_arg = ''Weekend BBQ'',
            sl_line_items_arg =
              [\<lparr> li_name_arg = ''Burger Buns'', li_quantity_arg = Given 0x4000000000000000,
                 li_unit_arg = Unset, li_display_text_arg = Unset \<rparr>],
            sl_image_url_arg = Unset, sl_instructions_arg = Unset,
            sl_partner_linkback_url_arg = Unset \<rparr>)) []) = Inr ?resp"
    by (simp add: gateway_eval payload_defs)
  have rc: "fst (post_to_instacart ?cfg ?up ''products/recipe''
      (create_recipe_data (RecipeRequest_init
          \<lparr> rc_title_arg = ''Chili'', rc_ingredients_arg = [],
            rc_image_url_arg = Unset, rc_author_arg = Unset, rc_servings_arg = Unset,
            rc_cooking_time_arg = Unset, rc_instructions_arg = Unset,
            rc_partner_linkback_url_arg = Unset, rc_enable_pantry_items_arg = Unset \<rparr>)) []) = Inr ?resp"
    by (simp add: gateway_eval payload_defs)
  from w sl rc show ?thesis by (simp add: dict_get_def)
qed

text \<open>
  C4.  When the POST is answered by a response with a 4xx or 5xx status, the gateway and
  both tools raise \<^verbatim>\<open>HTTPStatusError\<close>, which carries the response (its status code and
  its body); no value is returned, \<^verbatim>\<open>client.post\<close> has been called once and one request
  has gone out: nothing is retried.
\<close>

theorem http_failure_status:
  assumes "400 \<le> status_code resp" and "status_code resp \<le> 599"
  shows
    "(fst (post_to_instacart cfg up endpoint data sent) = Inr resp
        \<longrightarrow> fst (call_instacart_api cfg up endpoint data sent) = Inl (HTTPStatusError resp)
            \<and> length (snd (call_instacart_api cfg up endpoint data sent)) = Suc (length sent)
            \<and> length (transmitted (snd (call_instacart_api cfg up endpoint data sent))) =
                Suc (length (transmitted sent)))
     \<and> (fst (post_to_instacart cfg up ''products/products_link''
             (create_shopping_list_data request) sent) = Inr resp
        \<longrightarrow> fst (create_shopping_list cfg up request sent) = Inl (HTTPStatusError resp)
            \<and> length (snd (create_shopping_list cfg up request sent)) = Suc (length sent)
            \<and> length (transmitted (snd (create_shopping_list cfg up request sent))) =
                Suc (length (transmitted sent)))
     \<and> (fst (post_to_instacart cfg up ''products/recipe''
             (create_recipe_data request') sent) = Inr resp
        \<longrightarrow> fst (create_recipe cfg up request' sent) = Inl (HTTPStatusError resp)
            \<and> length (snd (create_recipe cfg up request' sent)) = Suc (length sent)
            \<and> length (transmitted (snd (create_recipe cfg up request' sent))) =
                Suc (length (transmitted sent)))"
proof -
  have "unwrap_response resp = Inl (HTTPStatusError resp)"
    using assms by (simp add: unwrap_response_def raise_for_status_def)
  then show ?thesis
    unfolding create_shopping_list_def create_recipe_def
    by (simp add: call_instacart_api_answered)
qed

text \<open>Status 422.\<close>

theorem http_failure_status_witness:
  "fst (create_shopping_list
        \<lparr> API_KEY_DEV = Some ''dev-key'', API_KEY = Some ''prod-key'', IS_PROD = False \<rparr>
        (\<lambda>sent req. if headers req = [(''Authorization'', ''Bearer dev-key'')]
            then Responded \<lparr> status_code = 422, content = ''unprocessable'', json_value = None \<rparr>
            else TransportFailed)
        (ShoppingListRequest_init
          \<lparr> sl_title_arg = ''Weekend BBQ'',
            sl_line_items_arg =
              [\<lparr> li_name_arg = ''Burger Buns'', li_quantity_arg = Given 0x4000000000000000,
                 li_unit_arg = Unset, li_display_text_arg = Unset \<rparr>],
            sl_image_url_arg = Unset, sl_instructions_arg = Unset,
            sl_partner_linkback_url_arg = Unset \<rparr>) []) =
     Inl (HTTPStatusError \<lparr> status_code = 422, content = ''unprocessable'', json_value = None \<rparr>)
   \<and> length (transmitted (snd (create_shopping_list
        \<lparr> API_KEY_DEV = Some ''dev-key'', API_KEY = Some ''prod-key'', IS_PROD = False \<rparr>
        (\<lambda>sent req. if headers req = [(''Authorization'', ''Bearer dev-key'')]
            then Responded \<lparr> status_code = 422, content = ''unprocessable'', json_value = None \<rparr>
            else TransportFailed)
        (ShoppingListRequest_init
          \<lparr> sl_title_arg = ''Weekend BBQ'',
            sl_line_items_arg =
              [\<lparr> li_name_arg = ''Burger Buns'', li_quantity_arg = Given 0x4000000000000000,
                 li_unit_arg = Unset, li_display_text_arg = Unset \<rparr>],
            sl_image_url_arg = Unset, sl_instructions_arg = Unset,
            sl_partner_linkback_url_arg = Unset \<rparr>) []))) = 1
   \<and> fst (create_recipe
        \<lparr> API_KEY_DEV = Some ''dev-key'', API_KEY = Some ''prod-key'', IS_PROD = False \<rparr>
        (\<lambda>sent req. if headers req = [(''Authorization'', ''Bearer dev-key'')]
            then Responded \<lparr> status_code = 422, content = ''unprocessable'', json_value = None \<rparr>
            else TransportFailed)
        (RecipeRequest_init
          \<lparr> rc_title_arg = ''Chili'', rc_ingredients_arg = [],
            rc_image_url_arg = Unset, rc_author_arg = Unset, rc_servings_arg = Unset,
            rc_cooking_time_arg = Unset, rc_instructions_arg = Unset,
            rc_partner_linkback_url_arg = Unset, rc_enable_pantry_items_arg = Unset \<rparr>) []) =
     Inl (HTTPStatusError \<lparr> status_code = 422, content = ''unprocessable'', json_value = None \<rparr>)"
proof -
  let ?cfg = "\<lparr> API_KEY_DEV = Some ''dev-key'', API_KEY = Some ''prod-key'', IS_PROD = False \<rparr>"
  let ?resp = "\<lparr> status_code = 422, content = ''unprocessable'', json_value = None \<rparr>"
  let ?up = "(\<lambda>sent req. if headers req = [(''Authorization'', ''Bearer dev-key'')]
            then Responded \<lparr> status_code = 422, content = ''unprocessable'', json_value = None \<rparr>
            else TransportFailed)"
  note w = http_failure_status [where resp = ?resp and cfg = ?cfg and up = ?up and sent = "[]"
      and endpoint = "''products/recipe''" and data = "[]"
      and request = "(ShoppingListRequest_init
          \<lparr> sl_title_arg = ''Weekend BBQ'',
            sl_line_items_arg =
              [\<lparr> li_name_arg = ''Burger Buns'', li_quantity_arg = Given 0x4000000000000000,
                 li_unit_arg = Unset, li_display_text_arg = Unset \<rparr>],
            sl_image_url_arg = Unset, sl_instructions_arg = Unset,
            sl_partner_linkback_url_arg = Unset \<rparr>)"
      and request' = "(RecipeRequest_init
          \<lparr> rc_title_arg = ''Chili'', rc_ingredients_arg = [],
            rc_image_url_arg = Unset, rc_author_arg = Unset, rc_servings_arg = Unset,
            rc_cooking_time_arg = Unset, rc_instructions_arg = Unset,
            rc_partner_linkback_url_arg = Unset, rc_enable_pantry_items_arg = Unset \<rparr>)"]
  have sl: "fst (post_to_instacart ?cfg ?up ''products/products_link''
      (create_shopping_list_data (ShoppingListRequest_init
          \<lparr> sl_title_arg = ''Weekend BBQ'',
            sl_line_items_arg =
              [\<lparr> li_name_arg = ''Burger Buns'', li_quantity_arg = Given 0x4000000000000000,
                 li_unit_arg = Unset, li_display_text_arg = Unset \<rparr>],
            sl_image_url_arg = Unset, sl_instructions_arg = Unset,
            sl_partner_linkback_url_arg = Unset \<rparr>)) []) = Inr ?resp"
    by (simp add: gateway_eval payload_defs)
  have rc: "fst (post_to_instacart ?cfg ?up ''products/recipe''
      (create_recipe_data (RecipeRequest_init
          \<lparr> rc_title_arg = ''Chili'', rc_ingredients_arg = [],
            rc_image_url_arg = Unset, rc_author_arg = Unset, rc_servings_arg = Unset,
            rc_cooking_time_arg = Unset, rc_instructions_arg = Unset,
            rc_partner_linkback_url_arg = Unset, rc_enable_pantry_items_arg = Unset \<rparr>)) []) = Inr ?resp"
    by (simp add: gateway_eval payload_defs)
  from w sl rc show ?thesis by (simp add: transmitted_Nil)
qed

text \<open>
  C5.  When the POST is answered by a response with a 2xx status and a JSON body that
  has no field \<^verbatim>\<open>products_link_url\<close>, the gateway and both tools raise: \<^verbatim>\<open>KeyError\<close> when
  the body is an object without that key, \<^verbatim>\<open>TypeError\<close> when the body is not an object.
  No value is returned, so neither \<^verbatim>\<open>None\<close> nor an empty string.
\<close>

theorem missing_products_link_url:
  assumes "200 \<le> status_code resp" and "status_code resp \<le> 299"
      and "json_value resp = Some body"
      and "\<forall>d. body = PyDict d \<longrightarrow> \<not> dict_contains d ''products_link_url''"
  shows
    "(fst (post_to_instacart cfg up endpoint data sent) = Inr resp
        \<longrightarrow> fst (call_instacart_api cfg up endpoint data sent) =
              Inl (case body of PyDict d \<Rightarrow> KeyError ''products_link_url'' | _ \<Rightarrow> TypeError))
     \<and> (fst (post_to_instacart cfg up ''products/products_link''
             (create_shopping_list_data request) sent) = Inr resp
        \<longrightarrow> fst (create_shopping_list cfg up request sent) =
              Inl (case body of PyDict d \<Rightarrow> KeyError ''products_link_url'' | _ \<Rightarrow> TypeError))
     \<and> (fst (post_to_instacart cfg up ''products/recipe''
             (create_recipe_data request') sent) = Inr resp
        \<longrightarrow> fst (create_recipe cfg up request' sent) =
              Inl (case body of PyDict d \<Rightarrow> KeyError ''products_link_url'' | _ \<Rightarrow> TypeError))"
proof -
  have "unwrap_response resp =
          Inl (case body of PyDict d \<Rightarrow> KeyError ''products_link_url'' | _ \<Rightarrow> TypeError)"
    using assms
    by (cases body)
       (simp_all add: unwrap_response_def raise_for_status_def response_json_def
          dict_contains_get)
  then show ?thesis
    by (simp add: create_shopping_list_def create_recipe_def call_instacart_api_result)
qed

text \<open>An object without the key, and a JSON array.\<close>

theorem missing_products_link_url_witness:
  "fst (create_shopping_list
        \<lparr> API_KEY_DEV = Some ''dev-key'', API_KEY = Some ''prod-key'', IS_PROD = False \<rparr>
        (\<lambda>sent req. if headers req = [(''Authorization'', ''Bearer dev-key'')]
            then Responded \<lparr> status_code = 200, content = ''ok'',
              json_value = Some (PyDict [(''message'', PyStr ''created'')]) \<rparr>
            else TransportFailed)
        (ShoppingListRequest_init
          \<lparr> sl_title_arg = ''Weekend BBQ'',
            sl_line_items_arg =
              [\<lparr> li_name_arg = ''Burger Buns'', li_quantity_arg = Given 0x4000000000000000,
                 li_unit_arg = Unset, li_display_text_arg = Unset \<rparr>],
            sl_image_url_arg = Unset, sl_instructions_arg = Unset,
            sl_partner_linkback_url_arg = Unset \<rparr>) []) = Inl (KeyError ''products_link_url'')
   \<and> fst (create_recipe
        \<lparr> API_KEY_DEV = Some ''dev-key'', API_KEY = Some ''prod-key'', IS_PROD = False \<rparr>
        (\<lambda>sent req. if headers req = [(''Authorization'', ''Bearer dev-key'')]
            then Responded \<lparr> status_code = 200, content = ''ok'', json_value = Some (PyList []) \<rparr>
            else TransportFailed)
        (RecipeRequest_init
          \<lparr> rc_title_arg = ''Chili'', rc_ingredients_arg = [],
            rc_image_url_arg = Unset, rc_author_arg = Unset, rc_servings_arg = Unset,
            rc_cooking_time_arg = Unset, rc_instructions_arg = Unset,
            rc_partner_linkback_url_arg = Unset, rc_enable_pantry_items_arg = Unset \<rparr>) []) = Inl TypeError"
proof -
  let ?cfg = "\<lparr> API_KEY_DEV = Some ''dev-key'', API_KEY = Some ''prod-key'', IS_PROD = False \<rparr>"
  let ?miss = "\<lparr> status_code = 200, content = ''ok'',
              json_value = Some (PyDict [(''message'', PyStr ''created'')]) \<rparr>"
  let ?list = "\<lparr> status_code = 200, content = ''ok'', json_value = Some (PyList []) \<rparr>"
  let ?upm = "(\<lambda>sent req. if headers req = [(''Authorization'', ''Bearer dev-key'')]
            then Responded \<lparr> status_code = 200, content = ''ok'',
              json_value = Some (PyDict [(''message'', PyStr ''created'')]) \<rparr>
            else TransportFailed)"
  let ?upl = "(\<lambda>sent req. if headers req = [(''Authorization'', ''Bearer dev-key'')]
            then Responded \<lparr> status_code = 200, content = ''ok'', json_value = Some (PyList []) \<rparr>
            else TransportFailed)"
  note m = missing_products_link_url [where resp = ?miss and cfg = ?cfg and up = ?upm
      and body = "PyDict [(''message'', PyStr ''created'')]" and sent = "[]"
      and request = "(ShoppingListRequest_init
          \<lparr> sl_title_arg = ''Weekend BBQ'',
            sl_line_items_arg =
              [\<lparr> li_name_arg = ''Burger Buns'', li_quantity_arg = Given 0x4000000000000000,
                 li_unit_arg = Unset, li_display_text_arg = Unset \<rparr>],
            sl_image_url_arg = Unset, sl_instructions_arg = Unset,
            sl_partner_linkback_url_arg = Unset \<rparr>)"]
  note l = missing_products_link_url [where resp = ?list and cfg = ?cfg and up = ?upl
      and body = "PyList []" and sent = "[]"
      and request' = "(RecipeRequest_init
          \<lparr> rc_title_arg = ''Chili'', rc_ingredients_arg = [],
            rc_image_url_arg = Unset, rc_author_arg = Unset, rc_servings_arg = Unset,
            rc_cooking_time_arg = Unset, rc_instructions_arg = Unset,
            rc_partner_linkback_url_arg = Unset, rc_enable_pantry_items_arg = Unset \<rparr>)"]
  have sl: "fst (post_to_instacart ?cfg ?upm ''products/products_link''
      (create_shopping_list_data (ShoppingListRequest_init
          \<lparr> sl_title_arg = ''Weekend BBQ'',
            sl_line_items_arg =
              [\<lparr> li_name_arg = ''Burger Buns'', li_quantity_arg = Given 0x4000000000000000,
                 li_unit_arg = Unset, li_display_text_arg = Unset \<rparr>],
            sl_image_url_arg = Unset, sl_instructions_arg = Unset,
            sl_partner_linkback_url_arg = Unset \<rparr>)) []) = Inr ?miss"
    by (simp add: gateway_eval payload_defs)
  have rc: "fst (post_to_instacart ?cfg ?upl ''products/recipe''
      (create_recipe_data (RecipeRequest_init
          \<lparr> rc_title_arg = ''Chili'', rc_ingredients_arg = [],
            rc_image_url_arg = Unset, rc_author_arg = Unset, rc_servings_arg = Unset,
            rc_cooking_time_arg = Unset, rc_instructions_arg = Unset,
            rc_partner_linkback_url_arg = Unset, rc_enable_pantry_items_arg = Unset \<rparr>)) []) = Inr ?list"
    by (simp add: gateway_eval payload_defs)
  from m sl have a: "fst (create_shopping_list ?cfg ?upm (ShoppingListRequest_init
          \<lparr> sl_title_arg = ''Weekend BBQ'',
            sl_line_items_arg =
              [\<lparr> li_name_arg = ''Burger Buns'', li_quantity_arg = Given 0x4000000000000000,
                 li_unit_arg = Unset, li_display_text_arg = Unset \<rparr>],
            sl_image_url_arg = Unset, sl_instructions_arg = Unset,
            sl_partner_linkback_url_arg = Unset \<rparr>) []) = Inl (KeyError ''products_link_url'')"
    by (simp add: dict_contains_def)
  from l rc have b: "fst (create_recipe ?cfg ?upl (RecipeRequest_init
          \<lparr> rc_title_arg = ''Chili'', rc_ingredients_arg = [],
            rc_image_url_arg = Unset, rc_author_arg = Unset, rc_servings_arg = Unset,
            rc_cooking_time_arg = Unset, rc_instructions_arg = Unset,
            rc_partner_linkback_url_arg = Unset, rc_enable_pantry_items_arg = Unset \<rparr>) []) = Inl TypeError"
    by simp
  from a b show ?thesis by blast
qed

end
